theory Spec2Isabelle
  imports Main "HOL-Library.Char_ord" "HOL-Library.List_Lexorder"
begin

section \<open>Python values, exceptions and the observable world\<close>

text \<open>
  The program is four Python functions around a calendar API client. Every exception a
  function can end with is a value of \<open>error\<close>; a function returns
  \<open>(error + value) \<times> world\<close>, the world holding what the run did so far: the calls that
  reached the calendar service, the lines printed, the warnings issued, the token file and
  the steps of the authentication libraries. Assertions are taken as enabled (the
  interpreter is not run with \<^verbatim>\<open>-O\<close>), and \<^verbatim>\<open>warnings.warn\<close> with the default
  filter, under which it records the warning and returns.
\<close>

datatype error =
    AssertionError string
  | ValueError string
  | KeyError string
  | HttpError string
  | RefreshError string
  | FileNotFoundError string
  | OtherError string

subsection \<open>Resources of the calendar API\<close>

text \<open>
  A JSON object of the service is a record whose fields are the keys the program reads;
  a key that may be missing is an \<open>option\<close>. Reading a missing key by subscript raises
  \<open>KeyError\<close>, reading it with \<^verbatim>\<open>.get\<close> gives the default.
\<close>

record event_time =
  et_dateTime :: "string option"
  et_date :: "string option"

record event =
  ev_summary :: "string option"
  ev_start :: "event_time option"
  ev_end :: "event_time option"
  ev_htmlLink :: "string option"

record calendar =
  cal_id :: "string option"
  cal_summary :: "string option"

record 'a listing =
  items :: "'a list option"

text \<open>\<^verbatim>\<open>result.get('items', [])\<close>\<close>

definition get_items :: "'a listing \<Rightarrow> 'a list" where
  "get_items r = (case items r of None \<Rightarrow> [] | Some xs \<Rightarrow> xs)"

subsection \<open>Request bodies\<close>

record time_spec =
  ts_dateTime :: string
  ts_timeZone :: string

record event_body =
  eb_summary :: string
  eb_location :: string
  eb_description :: string
  eb_start :: time_spec
  eb_end :: time_spec

record calendar_body =
  cb_summary :: string
  cb_timeZone :: string

subsection \<open>The service and the calls that reach it\<close>

text \<open>
  One constructor per request the program issues, with the arguments it passes. The
  service is a test double: each operation answers a request with a resource or raises.
\<close>

datatype call =
    CalendarList_list
  | Events_list string string string bool string
  | Events_insert string event_body
  | Calendars_insert calendar_body

record service =
  calendarList_list :: "error + calendar listing"
  events_list :: "string \<Rightarrow> string \<Rightarrow> string \<Rightarrow> bool \<Rightarrow> string \<Rightarrow> error + event listing"
  events_insert :: "string \<Rightarrow> event_body \<Rightarrow> error + event"
  calendars_insert :: "calendar_body \<Rightarrow> error + calendar"

datatype auth_step =
    Refresh_request
  | Read_client_secrets
  | Run_local_server
  | Write_token string
  | Build_service

record world =
  calls :: "call list"
  stdout :: "string list"
  warnings :: "string list"
  token_file :: "string option"
  auth_steps :: "auth_step list"

definition print :: "string \<Rightarrow> world \<Rightarrow> world" where
  "print line w = w\<lparr>stdout := stdout w @ [line]\<rparr>"

definition warn :: "string \<Rightarrow> world \<Rightarrow> world" where
  "warn msg w = w\<lparr>warnings := warnings w @ [msg]\<rparr>"

definition request :: "call \<Rightarrow> world \<Rightarrow> world" where
  "request c w = w\<lparr>calls := calls w @ [c]\<rparr>"

definition auth_do :: "auth_step \<Rightarrow> world \<Rightarrow> world" where
  "auth_do s w = w\<lparr>auth_steps := auth_steps w @ [s]\<rparr>"

text \<open>How an f-string renders a value that may be \<^verbatim>\<open>None\<close>.\<close>

definition str_opt :: "string option \<Rightarrow> string" where
  "str_opt v = (case v of None \<Rightarrow> ''None'' | Some s \<Rightarrow> s)"

section \<open>Dates\<close>

text \<open>
  \<^verbatim>\<open>datetime.fromisoformat\<close> belongs to the standard library and the set of strings it
  accepts differs between interpreter versions, so \<open>fetch_events\<close> takes it as a
  parameter. What the program itself does with the parsed value is modelled here:
  \<^verbatim>\<open>tz.localize\<close> attaches the zone to a naive value and refuses an aware one, and
  \<^verbatim>\<open>strftime\<close> expands the three directives the program uses, zero-padded as the
  library documents them, copying every other character.
\<close>

record datetime =
  dt_year :: nat
  dt_month :: nat
  dt_day :: nat
  dt_hour :: nat
  dt_minute :: nat
  dt_second :: nat
  dt_tzinfo :: "string option"

definition localize :: "string \<Rightarrow> datetime \<Rightarrow> error + datetime" where
  "localize tz dt =
     (if dt_tzinfo dt \<noteq> None then Inl (ValueError ''Not naive datetime (tzinfo is already set)'')
      else Inr (dt\<lparr>dt_tzinfo := Some tz\<rparr>))"

definition digit_char :: "nat \<Rightarrow> char" where
  "digit_char d = ''0123456789'' ! (d mod 10)"

fun show_nat :: "nat \<Rightarrow> string" where
  "show_nat n = (if n < 10 then [digit_char n] else show_nat (n div 10) @ [digit_char (n mod 10)])"

definition zero_pad :: "nat \<Rightarrow> string \<Rightarrow> string" where
  "zero_pad width s = replicate (width - length s) (CHR ''0'') @ s"

definition directive :: "datetime \<Rightarrow> char \<Rightarrow> string" where
  "directive dt c =
     (if c = CHR ''Y'' then zero_pad 4 (show_nat (dt_year dt))
      else if c = CHR ''m'' then zero_pad 2 (show_nat (dt_month dt))
      else if c = CHR ''d'' then zero_pad 2 (show_nat (dt_day dt))
      else if c = CHR ''%'' then ''%''
      else [CHR ''%'', c])"

fun strftime :: "datetime \<Rightarrow> string \<Rightarrow> string" where
  "strftime dt [] = []"
| "strftime dt [c] = [c]"
| "strftime dt (c # d # cs) =
     (if c = CHR ''%'' then directive dt d @ strftime dt cs else c # strftime dt (d # cs))"

text \<open>Lines 51 to 57 of \<open>fetch_events\<close>: the bounds of the query, or the exception.\<close>

definition day_window :: "(string \<Rightarrow> error + datetime) \<Rightarrow> string \<Rightarrow> error + string \<times> string" where
  "day_window fromisoformat date =
     (case fromisoformat date of
        Inl e \<Rightarrow> Inl e
      | Inr dt0 \<Rightarrow>
          (case localize ''Asia/Jerusalem'' dt0 of
             Inl e \<Rightarrow> Inl e
           | Inr dt \<Rightarrow>
               Inr (strftime dt ''%Y-%m-%dT00:00:00+02:00'',
                    strftime dt ''%Y-%m-%dT23:59:59+02:00'')))"

section \<open>fetch\_events\<close>

record event_row =
  row_calendar_name :: string
  row_event_summary :: string
  row_event_start :: "string option"
  row_event_end :: "string option"

text \<open>\<^verbatim>\<open>time.get('dateTime', time.get('date'))\<close>\<close>

definition time_value :: "event_time \<Rightarrow> string option" where
  "time_value t = (case et_dateTime t of Some v \<Rightarrow> Some v | None \<Rightarrow> et_date t)"

text \<open>The dictionary \<^verbatim>\<open>event_data\<close>, its entries evaluated in the order written.\<close>

definition event_data :: "string \<Rightarrow> event \<Rightarrow> error + event_row" where
  "event_data calendar_name ev =
     (case ev_start ev of
        None \<Rightarrow> Inl (KeyError ''start'')
      | Some s \<Rightarrow>
          (case ev_end ev of
             None \<Rightarrow> Inl (KeyError ''end'')
           | Some e \<Rightarrow>
               Inr \<lparr>row_calendar_name = calendar_name,
                    row_event_summary = (case ev_summary ev of None \<Rightarrow> ''Unknown'' | Some t \<Rightarrow> t),
                    row_event_start = time_value s,
                    row_event_end = time_value e\<rparr>))"

text \<open>
  The inner loop: one row appended to the frame per event. The frame is the list of its
  rows, and \<^verbatim>\<open>df.append(row, ignore_index=True)\<close> gives the frame with the row added
  at the end, as pandas before version 2 does. An empty list is the frame for which
  \<^verbatim>\<open>df.empty\<close> holds.
\<close>

fun append_events :: "string \<Rightarrow> event list \<Rightarrow> event_row list \<Rightarrow> error + event_row list" where
  "append_events calendar_name [] df = Inr df"
| "append_events calendar_name (ev # evs) df =
     (case event_data calendar_name ev of
        Inl e \<Rightarrow> Inl e
      | Inr r \<Rightarrow> append_events calendar_name evs (df @ [r]))"

text \<open>The outer loop over the enumerated calendars.\<close>

fun fetch_calendars ::
  "service \<Rightarrow> string \<Rightarrow> string \<Rightarrow> bool \<Rightarrow> calendar list \<Rightarrow> event_row list \<Rightarrow> world
     \<Rightarrow> (error + event_row list) \<times> world" where
  "fetch_calendars svc time_min time_max verbosity [] df w = (Inr df, w)"
| "fetch_calendars svc time_min time_max verbosity (c # cs) df w =
     (case cal_id c of
        None \<Rightarrow> (Inl (KeyError ''id''), w)
      | Some calendar_id \<Rightarrow>
          (case cal_summary c of
             None \<Rightarrow> (Inl (KeyError ''summary''), w)
           | Some calendar_name \<Rightarrow>
               (let w1 = request (Events_list calendar_id time_min time_max True ''startTime'') w in
                case events_list svc calendar_id time_min time_max True ''startTime'' of
                  Inl e \<Rightarrow> (Inl e, w1)
                | Inr events_result \<Rightarrow>
                    (let events = get_items events_result;
                         w2 = (if events = [] \<and> verbosity
                               then print (''No events found for calendar: '' @ calendar_name) w1
                               else w1)
                     in case append_events calendar_name events df of
                          Inl e \<Rightarrow> (Inl e, w2)
                        | Inr df' \<Rightarrow> fetch_calendars svc time_min time_max verbosity cs df' w2))))"

definition fetch_events ::
  "(string \<Rightarrow> error + datetime) \<Rightarrow> service option \<Rightarrow> string \<Rightarrow> bool \<Rightarrow> world
     \<Rightarrow> (error + event_row list) \<times> world" where
  "fetch_events fromisoformat service date verbosity w =
     (case service of
        None \<Rightarrow> (Inl (AssertionError ''Service must be initialized.''), w)
      | Some svc \<Rightarrow>
          (case day_window fromisoformat date of
             Inl e \<Rightarrow> (Inl e, w)
           | Inr (time_min, time_max) \<Rightarrow>
               (let w1 = (if verbosity then print (''Fetching events for '' @ date @ ''.'') w else w);
                    w2 = request CalendarList_list w1
                in case calendarList_list svc of
                     Inl e \<Rightarrow> (Inl e, w2)
                   | Inr calendar_list \<Rightarrow>
                       (case fetch_calendars svc time_min time_max verbosity
                               (get_items calendar_list) [] w2 of
                          (Inl e, w3) \<Rightarrow> (Inl e, w3)
                        | (Inr df, w3) \<Rightarrow>
                            (Inr df,
                             if df = [] then warn ''No events found for the specified date.'' w3
                             else w3)))))"

section \<open>add\_event and create\_calendar\<close>

text \<open>
  Neither function has a \<^verbatim>\<open>return\<close> statement: a call that does not raise yields
  Python's \<^verbatim>\<open>None\<close>, which is \<open>None\<close> of the option type here.
\<close>

definition add_event ::
  "service option \<Rightarrow> string \<Rightarrow> string \<Rightarrow> string \<Rightarrow> string \<Rightarrow> string \<Rightarrow> string \<Rightarrow> bool \<Rightarrow> world
     \<Rightarrow> (error + event option) \<times> world" where
  "add_event service calendar_id summary start_time end_time description location verbosity w =
     (case service of
        None \<Rightarrow> (Inl (AssertionError ''Service must be initialized.''), w)
      | Some svc \<Rightarrow>
          if \<not> (calendar_id \<noteq> [] \<and> summary \<noteq> [] \<and> start_time \<noteq> [] \<and> end_time \<noteq> [])
          then (Inl (AssertionError ''Essential event details must be provided.''), w)
          else
            (let body = \<lparr>eb_summary = summary, eb_location = location,
                         eb_description = description,
                         eb_start = \<lparr>ts_dateTime = start_time, ts_timeZone = ''Asia/Jerusalem''\<rparr>,
                         eb_end = \<lparr>ts_dateTime = end_time, ts_timeZone = ''Asia/Jerusalem''\<rparr>\<rparr>;
                 w1 = request (Events_insert calendar_id body) w
             in case events_insert svc calendar_id body of
                  Inl e \<Rightarrow> (Inl e, w1)
                | Inr created \<Rightarrow>
                    (Inr None,
                     if verbosity then print (''Event created: '' @ str_opt (ev_htmlLink created)) w1
                     else w1)))"

definition create_calendar ::
  "service option \<Rightarrow> string \<Rightarrow> bool \<Rightarrow> world \<Rightarrow> (error + calendar option) \<times> world" where
  "create_calendar service summary verbosity w =
     (case service of
        None \<Rightarrow> (Inl (AssertionError ''Service must be initialized.''), w)
      | Some svc \<Rightarrow>
          if \<not> (summary \<noteq> [])
          then (Inl (AssertionError ''Calendar summary must be provided.''), w)
          else
            (let body = \<lparr>cb_summary = summary, cb_timeZone = ''Asia/Jerusalem''\<rparr>;
                 w1 = request (Calendars_insert body) w
             in case calendars_insert svc body of
                  Inl e \<Rightarrow> (Inl e, w1)
                | Inr created_calendar \<Rightarrow>
                    if verbosity then
                      (case cal_summary created_calendar of
                         None \<Rightarrow> (Inl (KeyError ''summary''), w1)
                       | Some s \<Rightarrow>
                           (case cal_id created_calendar of
                              None \<Rightarrow> (Inl (KeyError ''id''), w1)
                            | Some i \<Rightarrow>
                                (Inr None, print (''Created calendar: '' @ s @ '', ID: '' @ i) w1)))
                    else (Inr None, w1)))"

section \<open>get\_calendar\_service\<close>

text \<open>
  The credential object and the libraries that produce it. \<open>cred_valid\<close> is the
  library's \<^verbatim>\<open>valid\<close> property: a token is present and the credential is not expired.
  \<open>truthy\<close> is Python's truth value of an optional string.
\<close>

record credentials =
  cred_token :: "string option"
  cred_refresh_token :: "string option"
  cred_expired :: bool
  cred_json :: string

definition cred_valid :: "credentials \<Rightarrow> bool" where
  "cred_valid c = (cred_token c \<noteq> None \<and> \<not> cred_expired c)"

definition truthy :: "string option \<Rightarrow> bool" where
  "truthy v = (case v of None \<Rightarrow> False | Some s \<Rightarrow> s \<noteq> [])"

record auth_lib =
  from_authorized_user_file :: "string \<Rightarrow> error + credentials"
  refresh :: "credentials \<Rightarrow> error + credentials"
  from_client_secrets_file :: "error + unit"
  run_local_server :: "error + credentials"
  build :: "credentials \<Rightarrow> error + service"

text \<open>Lines 20 to 22: the persisted credential, when the token file exists.\<close>

definition load_creds :: "auth_lib \<Rightarrow> world \<Rightarrow> error + credentials option" where
  "load_creds lib w =
     (case token_file w of
        None \<Rightarrow> Inr None
      | Some content \<Rightarrow>
          (case from_authorized_user_file lib content of
             Inl e \<Rightarrow> Inl e
           | Inr c \<Rightarrow> Inr (Some c)))"

text \<open>Lines 28 and 29: the interactive consent flow.\<close>

definition run_flow :: "auth_lib \<Rightarrow> world \<Rightarrow> (error + credentials) \<times> world" where
  "run_flow lib w =
     (let w1 = auth_do Read_client_secrets w
      in case from_client_secrets_file lib of
           Inl e \<Rightarrow> (Inl e, w1)
         | Inr flow \<Rightarrow>
             (let w2 = auth_do Run_local_server w1
              in case run_local_server lib of
                   Inl e \<Rightarrow> (Inl e, w2)
                 | Inr c \<Rightarrow> (Inr c, w2)))"

text \<open>Lines 25 to 29: refresh in place, or run the flow.\<close>

definition renew :: "auth_lib \<Rightarrow> credentials option \<Rightarrow> world \<Rightarrow> (error + credentials) \<times> world" where
  "renew lib creds w =
     (case creds of
        None \<Rightarrow> run_flow lib w
      | Some c \<Rightarrow>
          if cred_expired c \<and> truthy (cred_refresh_token c)
          then (let w1 = auth_do Refresh_request w
                in case refresh lib c of
                     Inl e \<Rightarrow> (Inl e, w1)
                   | Inr c' \<Rightarrow> (Inr c', w1))
          else run_flow lib w)"

text \<open>Lines 34 to 39: build the client, report, return it.\<close>

definition finish :: "auth_lib \<Rightarrow> bool \<Rightarrow> credentials \<Rightarrow> world \<Rightarrow> (error + service) \<times> world" where
  "finish lib verbosity c w =
     (let w1 = auth_do Build_service w
      in case build lib c of
           Inl e \<Rightarrow> (Inl e, w1)
         | Inr svc \<Rightarrow>
             (Inr svc,
              if verbosity then print ''Authenticated Google Calendar API service.'' w1 else w1))"

text \<open>Lines 24 to 32: the block that replaces the credential, then writes the token file.\<close>

definition renew_and_store ::
  "auth_lib \<Rightarrow> credentials option \<Rightarrow> world \<Rightarrow> (error + credentials) \<times> world" where
  "renew_and_store lib creds w =
     (case renew lib creds w of
        (Inl e, w1) \<Rightarrow> (Inl e, w1)
      | (Inr c, w1) \<Rightarrow>
          (Inr c, auth_do (Write_token (cred_json c)) (w1\<lparr>token_file := Some (cred_json c)\<rparr>)))"

definition get_calendar_service :: "auth_lib \<Rightarrow> bool \<Rightarrow> world \<Rightarrow> (error + service) \<times> world" where
  "get_calendar_service lib verbosity w =
     (case load_creds lib w of
        Inl e \<Rightarrow> (Inl e, w)
      | Inr creds \<Rightarrow>
          (case (case creds of
                   None \<Rightarrow> renew_and_store lib creds w
                 | Some c \<Rightarrow> if cred_valid c then (Inr c, w) else renew_and_store lib creds w) of
             (Inl e, w1) \<Rightarrow> (Inl e, w1)
           | (Inr c, w1) \<Rightarrow> finish lib verbosity c w1))"

section \<open>Concrete runs\<close>

text \<open>
  The date-only form \<^verbatim>\<open>YYYY-MM-DD\<close> of \<^verbatim>\<open>fromisoformat\<close>, which every version of the
  library accepts and reads as midnight of that day, without a zone. It stands for the
  library in the concrete runs below.
\<close>

definition digit_val :: "char \<Rightarrow> nat option" where
  "digit_val c =
     map_of [(CHR ''0'', 0), (CHR ''1'', 1), (CHR ''2'', 2), (CHR ''3'', 3), (CHR ''4'', 4),
             (CHR ''5'', 5), (CHR ''6'', 6), (CHR ''7'', 7), (CHR ''8'', 8), (CHR ''9'', 9)] c"

fun number :: "nat \<Rightarrow> string \<Rightarrow> nat option" where
  "number acc [] = Some acc"
| "number acc (c # cs) =
     (case digit_val c of None \<Rightarrow> None | Some d \<Rightarrow> number (10 * acc + d) cs)"

definition leap_year :: "nat \<Rightarrow> bool" where
  "leap_year y = (y mod 4 = 0 \<and> (y mod 100 \<noteq> 0 \<or> y mod 400 = 0))"

definition days_in_month :: "nat \<Rightarrow> nat \<Rightarrow> nat" where
  "days_in_month y m =
     (if m = 2 then (if leap_year y then 29 else 28)
      else if m = 4 \<or> m = 6 \<or> m = 9 \<or> m = 11 then 30 else 31)"

definition date_fromisoformat :: "string \<Rightarrow> error + datetime" where
  "date_fromisoformat s =
     (case s of
        [y1, y2, y3, y4, h1, m1, m2, h2, d1, d2] \<Rightarrow>
          (case (number 0 [y1, y2, y3, y4], number 0 [m1, m2], number 0 [d1, d2]) of
             (Some y, Some m, Some d) \<Rightarrow>
               if h1 = CHR ''-'' \<and> h2 = CHR ''-'' \<and> 1 \<le> y \<and> 1 \<le> m \<and> m \<le> 12
                  \<and> 1 \<le> d \<and> d \<le> days_in_month y m
               then Inr \<lparr>dt_year = y, dt_month = m, dt_day = d, dt_hour = 0, dt_minute = 0,
                         dt_second = 0, dt_tzinfo = None\<rparr>
               else Inl (ValueError (''Invalid isoformat string: '' @ s))
           | _ \<Rightarrow> Inl (ValueError (''Invalid isoformat string: '' @ s)))
      | _ \<Rightarrow> Inl (ValueError (''Invalid isoformat string: '' @ s)))"

definition world0 :: world where
  "world0 = \<lparr>calls = [], stdout = [], warnings = [], token_file = None, auth_steps = []\<rparr>"

text \<open>
  The service of the spec's scenario: calendars Work (one event, Standup, 09:00 to 10:00)
  and Personal (no event). Insertions answer with the resource the service would create.
\<close>

definition standup :: event where
  "standup =
     \<lparr>ev_summary = Some ''Standup'',
      ev_start = Some \<lparr>et_dateTime = Some ''2023-09-13T09:00:00+02:00'', et_date = None\<rparr>,
      ev_end = Some \<lparr>et_dateTime = Some ''2023-09-13T10:00:00+02:00'', et_date = None\<rparr>,
      ev_htmlLink = Some ''https://calendar.example/event?eid=standup''\<rparr>"

definition inserted_event :: "event_body \<Rightarrow> event" where
  "inserted_event body =
     \<lparr>ev_summary = Some (eb_summary body),
      ev_start = Some \<lparr>et_dateTime = Some (ts_dateTime (eb_start body)), et_date = None\<rparr>,
      ev_end = Some \<lparr>et_dateTime = Some (ts_dateTime (eb_end body)), et_date = None\<rparr>,
      ev_htmlLink = Some ''https://calendar.example/event?eid=new''\<rparr>"

definition scenario_service :: service where
  "scenario_service =
     \<lparr>calendarList_list =
        Inr \<lparr>items = Some [\<lparr>cal_id = Some ''work'', cal_summary = Some ''Work''\<rparr>,
                            \<lparr>cal_id = Some ''personal'', cal_summary = Some ''Personal''\<rparr>]\<rparr>,
      events_list = (\<lambda>calendar_id time_min time_max single_events order_by.
        if calendar_id = ''work'' then Inr \<lparr>items = Some [standup]\<rparr> else Inr \<lparr>items = None\<rparr>),
      events_insert = (\<lambda>calendar_id body. Inr (inserted_event body)),
      calendars_insert = (\<lambda>body.
        Inr \<lparr>cal_id = Some ''c_new@group.calendar.example'', cal_summary = Some (cb_summary body)\<rparr>)\<rparr>"

text \<open>A service with no event on any calendar.\<close>

definition quiet_service :: service where
  "quiet_service = scenario_service\<lparr>events_list :=
     (\<lambda>calendar_id time_min time_max single_events order_by. Inr \<lparr>items = Some []\<rparr>)\<rparr>"

text \<open>A service whose only event ends an hour before it starts.\<close>

definition backwards :: event where
  "backwards =
     \<lparr>ev_summary = Some ''Backwards'',
      ev_start = Some \<lparr>et_dateTime = Some ''2023-09-13T10:00:00+02:00'', et_date = None\<rparr>,
      ev_end = Some \<lparr>et_dateTime = Some ''2023-09-13T09:00:00+02:00'', et_date = None\<rparr>,
      ev_htmlLink = None\<rparr>"

definition backwards_service :: service where
  "backwards_service = scenario_service\<lparr>events_list :=
     (\<lambda>calendar_id time_min time_max single_events order_by.
        if calendar_id = ''work'' then Inr \<lparr>items = Some [backwards]\<rparr> else Inr \<lparr>items = None\<rparr>)\<rparr>"

text \<open>The scenario with an untitled whole-day event on the Personal calendar.\<close>

definition holiday :: event where
  "holiday =
     \<lparr>ev_summary = None,
      ev_start = Some \<lparr>et_dateTime = None, et_date = Some ''2023-09-13''\<rparr>,
      ev_end = Some \<lparr>et_dateTime = None, et_date = Some ''2023-09-14''\<rparr>,
      ev_htmlLink = None\<rparr>"

definition holiday_service :: service where
  "holiday_service = scenario_service\<lparr>events_list :=
     (\<lambda>calendar_id time_min time_max single_events order_by.
        if calendar_id = ''work'' then Inr \<lparr>items = Some [standup]\<rparr>
        else Inr \<lparr>items = Some [holiday]\<rparr>)\<rparr>"

text \<open>A service whose answer to a calendar insertion carries no identifier.\<close>

definition terse_service :: service where
  "terse_service = scenario_service\<lparr>calendars_insert :=
     (\<lambda>body. Inr \<lparr>cal_id = None, cal_summary = Some (cb_summary body)\<rparr>)\<rparr>"

text \<open>
  An expired credential with a refresh token in the token file, and libraries whose
  refresh request fails while the consent flow would succeed.
\<close>

definition expired_cred :: credentials where
  "expired_cred =
     \<lparr>cred_token = Some ''ya29.old'', cred_refresh_token = Some ''1//refresh'',
      cred_expired = True, cred_json = ''{old}''\<rparr>"

definition fresh_cred :: credentials where
  "fresh_cred =
     \<lparr>cred_token = Some ''ya29.new'', cred_refresh_token = Some ''1//refresh'',
      cred_expired = False, cred_json = ''{new}''\<rparr>"

definition offline_lib :: auth_lib where
  "offline_lib =
     \<lparr>from_authorized_user_file = (\<lambda>content. Inr expired_cred),
      refresh = (\<lambda>c. Inl (RefreshError ''transport failure'')),
      from_client_secrets_file = Inr (),
      run_local_server = Inr fresh_cred,
      build = (\<lambda>c. Inr scenario_service)\<rparr>"

definition online_lib :: auth_lib where
  "online_lib = offline_lib\<lparr>refresh := (\<lambda>c. Inr fresh_cred)\<rparr>"

definition stale_world :: world where
  "stale_world = world0\<lparr>token_file := Some ''{old}''\<rparr>"

section \<open>Vocabulary of the properties\<close>

text \<open>
  A row's start is not after its end: both are present and compare as Python compares
  two strings, character by character. The same for an event of the service, on the
  values \<open>fetch_events\<close> reads from it.
\<close>

definition row_start_le_end :: "event_row \<Rightarrow> bool" where
  "row_start_le_end r =
     (case (row_event_start r, row_event_end r) of
        (Some s, Some e) \<Rightarrow> s \<le> e
      | _ \<Rightarrow> False)"

definition event_start_le_end :: "event \<Rightarrow> bool" where
  "event_start_le_end ev =
     (case (ev_start ev, ev_end ev) of
        (Some s, Some e) \<Rightarrow>
          (case (time_value s, time_value e) of
             (Some a, Some b) \<Rightarrow> a \<le> b
           | _ \<Rightarrow> False)
      | _ \<Rightarrow> False)"

text \<open>
  The events the service lists for the enumerated calendars in a window, each with the
  name of its calendar, in enumeration order; and the calendars for which the listing
  can be read: identifier and name present, the request answered, every event with a
  start and an end object.
\<close>

definition events_of :: "service \<Rightarrow> string \<Rightarrow> string \<Rightarrow> calendar \<Rightarrow> (string \<times> event) list" where
  "events_of svc time_min time_max c =
     (case (cal_id c, cal_summary c) of
        (Some i, Some n) \<Rightarrow>
          (case events_list svc i time_min time_max True ''startTime'' of
             Inl e \<Rightarrow> []
           | Inr r \<Rightarrow> map (Pair n) (get_items r))
      | _ \<Rightarrow> [])"

definition listed :: "service \<Rightarrow> string \<Rightarrow> string \<Rightarrow> calendar list \<Rightarrow> (string \<times> event) list" where
  "listed svc time_min time_max cs = concat (map (events_of svc time_min time_max) cs)"

definition timed :: "event \<Rightarrow> bool" where
  "timed ev = (ev_start ev \<noteq> None \<and> ev_end ev \<noteq> None)"

definition listable :: "service \<Rightarrow> string \<Rightarrow> string \<Rightarrow> calendar \<Rightarrow> bool" where
  "listable svc time_min time_max c =
     (case (cal_id c, cal_summary c) of
        (Some i, Some n) \<Rightarrow>
          (case events_list svc i time_min time_max True ''startTime'' of
             Inl e \<Rightarrow> False
           | Inr r \<Rightarrow> list_all timed (get_items r))
      | _ \<Rightarrow> False)"

text \<open>
  The projection as the specification words it: the date-time value if present, else the
  whole-day date value; the title, or the placeholder when the event has none.
\<close>

definition is_projection :: "string \<times> event \<Rightarrow> event_row \<Rightarrow> bool" where
  "is_projection ne r =
     (case ne of (name, ev) \<Rightarrow>
        row_calendar_name r = name
        \<and> row_event_summary r = (case ev_summary ev of None \<Rightarrow> ''Unknown'' | Some t \<Rightarrow> t)
        \<and> (case ev_start ev of
             None \<Rightarrow> False
           | Some s \<Rightarrow> row_event_start r = (if et_dateTime s \<noteq> None then et_dateTime s else et_date s))
        \<and> (case ev_end ev of
             None \<Rightarrow> False
           | Some e \<Rightarrow> row_event_end r = (if et_dateTime e \<noteq> None then et_dateTime e else et_date e)))"



section \<open>The window and the two loops\<close>




lemma append_events_Inr:
  "append_events name evs df = Inr df' \<Longrightarrow>
     \<exists>new. df' = df @ new \<and> list_all2 is_projection (map (Pair name) evs) new"
proof (induction evs arbitrary: df)
  case Nil
  then show ?case by simp
next
  case (Cons ev evs)
  from Cons.prems obtain r where r: "event_data name ev = Inr r"
    and rest: "append_events name evs (df @ [r]) = Inr df'"
    by (auto split: sum.splits)
  from Cons.IH [OF rest] obtain new where new: "df' = (df @ [r]) @ new"
    and proj: "list_all2 is_projection (map (Pair name) evs) new"
    by blast
  from r have "is_projection (name, ev) r"
    by (auto simp: event_data_def is_projection_def time_value_def split: option.splits)
  with new proj have "df' = df @ (r # new) \<and> list_all2 is_projection (map (Pair name) (ev # evs)) (r # new)"
    by simp
  then show ?case by blast
qed

lemma append_events_total:
  "list_all timed evs \<Longrightarrow> \<exists>df'. append_events name evs df = Inr df'"
  by (induction evs arbitrary: df) (auto simp: timed_def event_data_def)

lemma fetch_calendars_Inr:
  "fetch_calendars svc time_min time_max verbosity cs df w = (Inr df', w') \<Longrightarrow>
     \<exists>new. df' = df @ new \<and> list_all2 is_projection (listed svc time_min time_max cs) new"
proof (induction cs arbitrary: df w)
  case Nil
  then show ?case by (simp add: listed_def)
next
  case (Cons c cs)
  from Cons.prems obtain i n r mid w2 where c: "cal_id c = Some i" "cal_summary c = Some n"
    and r: "events_list svc i time_min time_max True ''startTime'' = Inr r"
    and mid: "append_events n (get_items r) df = Inr mid"
    and rest: "fetch_calendars svc time_min time_max verbosity cs mid w2 = (Inr df', w')"
    by (auto simp: Let_def split: option.splits sum.splits)
  from append_events_Inr [OF mid] obtain new1 where new1: "mid = df @ new1"
    and p1: "list_all2 is_projection (map (Pair n) (get_items r)) new1"
    by blast
  from Cons.IH [OF rest] obtain new2 where new2: "df' = mid @ new2"
    and p2: "list_all2 is_projection (listed svc time_min time_max cs) new2"
    by blast
  have "listed svc time_min time_max (c # cs) = map (Pair n) (get_items r) @ listed svc time_min time_max cs"
    using c r by (simp add: listed_def events_of_def)
  with p1 p2 have "list_all2 is_projection (listed svc time_min time_max (c # cs)) (new1 @ new2)"
    by (simp add: list_all2_appendI)
  moreover have "df' = df @ (new1 @ new2)"
    using new1 new2 by simp
  ultimately show ?case by blast
qed

lemma listableD:
  "listable svc time_min time_max c \<Longrightarrow>
     \<exists>i n r. cal_id c = Some i \<and> cal_summary c = Some n
       \<and> events_list svc i time_min time_max True ''startTime'' = Inr r
       \<and> list_all timed (get_items r)"
  by (auto simp: listable_def split: option.splits sum.splits)

lemma fetch_calendars_total:
  "list_all (listable svc time_min time_max) cs \<Longrightarrow>
     \<exists>df' w'. fetch_calendars svc time_min time_max verbosity cs df w = (Inr df', w')"
proof (induction cs arbitrary: df w)
  case Nil
  then show ?case by simp
next
  case (Cons c cs)
  from Cons.prems have here: "listable svc time_min time_max c"
    and rest: "list_all (listable svc time_min time_max) cs"
    by simp_all
  from listableD [OF here] obtain i n r where c: "cal_id c = Some i" "cal_summary c = Some n"
    and r: "events_list svc i time_min time_max True ''startTime'' = Inr r"
    and t: "list_all timed (get_items r)"
    by blast
  from append_events_total [OF t] obtain mid where mid: "append_events n (get_items r) df = Inr mid"
    by blast
  show ?case
    using c r mid Cons.IH [OF rest] by (simp add: Let_def)
qed

lemma fetch_calendars_warnings:
  "warnings (snd (fetch_calendars svc time_min time_max verbosity cs df w)) = warnings w"
  by (induction cs arbitrary: df w)
     (auto simp: Let_def request_def print_def split: option.splits sum.splits)


lemma fetch_calendars_verbosity:
  "fst (fetch_calendars svc time_min time_max verbosity cs df w)
     = fst (fetch_calendars svc time_min time_max verbosity' cs df w')"
  by (induction cs arbitrary: df w w')
     (auto simp: Let_def split: option.splits sum.splits)

section \<open>What a run of fetch\_events returns\<close>

lemma fetch_events_unfold:
  assumes "day_window fromisoformat date = Inr (time_min, time_max)"
    and "calendarList_list svc = Inr calendar_list"
  shows "fetch_events fromisoformat (Some svc) date verbosity w =
     (case fetch_calendars svc time_min time_max verbosity (get_items calendar_list) []
             (request CalendarList_list
                (if verbosity then print (''Fetching events for '' @ date @ ''.'') w else w)) of
        (Inl e, w3) \<Rightarrow> (Inl e, w3)
      | (Inr df, w3) \<Rightarrow>
          (Inr df, if df = [] then warn ''No events found for the specified date.'' w3 else w3))"
  using assms by (simp add: fetch_events_def Let_def)

lemma fetch_events_Inr:
  assumes "fst (fetch_events fromisoformat (Some svc) date verbosity w) = Inr rows"
    and "day_window fromisoformat date = Inr (time_min, time_max)"
    and "calendarList_list svc = Inr calendar_list"
  shows "list_all2 is_projection (listed svc time_min time_max (get_items calendar_list)) rows"
proof -
  let ?w2 = "request CalendarList_list
               (if verbosity then print (''Fetching events for '' @ date @ ''.'') w else w)"
  obtain res w3 where run:
    "fetch_calendars svc time_min time_max verbosity (get_items calendar_list) [] ?w2 = (res, w3)"
    by (cases "fetch_calendars svc time_min time_max verbosity (get_items calendar_list) [] ?w2")
  with assms(1) have "res = Inr rows"
    unfolding fetch_events_unfold [OF assms(2,3)] by (cases res) simp_all
  with run fetch_calendars_Inr [of svc time_min time_max verbosity "get_items calendar_list" "[]" ?w2 rows w3]
  show ?thesis by simp
qed

lemma fetch_events_total:
  assumes "day_window fromisoformat date = Inr (time_min, time_max)"
    and "calendarList_list svc = Inr calendar_list"
    and "list_all (listable svc time_min time_max) (get_items calendar_list)"
  shows "\<exists>rows. fst (fetch_events fromisoformat (Some svc) date verbosity w) = Inr rows"
proof -
  let ?w2 = "request CalendarList_list
               (if verbosity then print (''Fetching events for '' @ date @ ''.'') w else w)"
  from fetch_calendars_total [OF assms(3), of verbosity "[]" ?w2]
  obtain df w3 where
    "fetch_calendars svc time_min time_max verbosity (get_items calendar_list) [] ?w2 = (Inr df, w3)"
    by blast
  then show ?thesis
    unfolding fetch_events_unfold [OF assms(1,2)] by simp
qed

lemma fetch_events_warnings:
  assumes "fst (fetch_events fromisoformat (Some svc) date verbosity w) = Inr rows"
  shows "warnings (snd (fetch_events fromisoformat (Some svc) date verbosity w)) =
           (if rows = [] then warnings w @ [''No events found for the specified date.'']
            else warnings w)"
proof -
  from assms obtain time_min time_max where win: "day_window fromisoformat date = Inr (time_min, time_max)"
    by (cases "day_window fromisoformat date") (auto simp: fetch_events_def)
  from assms win obtain calendar_list where cl: "calendarList_list svc = Inr calendar_list"
    by (cases "calendarList_list svc") (auto simp: fetch_events_def Let_def)
  let ?w2 = "request CalendarList_list
               (if verbosity then print (''Fetching events for '' @ date @ ''.'') w else w)"
  obtain res w3 where run:
    "fetch_calendars svc time_min time_max verbosity (get_items calendar_list) [] ?w2 = (res, w3)"
    by (cases "fetch_calendars svc time_min time_max verbosity (get_items calendar_list) [] ?w2")
  with assms have res: "res = Inr rows"
    unfolding fetch_events_unfold [OF win cl] by (cases res) simp_all
  have "warnings w3 = warnings ?w2"
    using fetch_calendars_warnings [of svc time_min time_max verbosity "get_items calendar_list" "[]" ?w2] run
    by simp
  then have "warnings w3 = warnings w"
    by (simp add: request_def print_def)
  then show ?thesis
    unfolding fetch_events_unfold [OF win cl] run res by (simp add: warn_def)
qed

lemma list_all2_right_member:
  "list_all2 P xs ys \<Longrightarrow> y \<in> set ys \<Longrightarrow> \<exists>x\<in>set xs. P x y"
  by (induction rule: list_all2_induct) auto

lemma listed_names:
  "ne \<in> set (listed svc time_min time_max cs) \<Longrightarrow> \<exists>c\<in>set cs. cal_summary c = Some (fst ne)"
  by (auto simp: listed_def events_of_def split: option.splits sum.splits)

lemma projection_keeps_order:
  "is_projection ne r \<Longrightarrow> event_start_le_end (snd ne) \<Longrightarrow> row_start_le_end r"
  by (cases ne)
     (auto simp: is_projection_def event_start_le_end_def row_start_le_end_def time_value_def
           split: option.splits if_splits)

lemma projection_keeps_name:
  "is_projection ne r \<Longrightarrow> row_calendar_name r = fst ne"
  by (cases ne) (simp add: is_projection_def)

section \<open>Validation before any call\<close>

text \<open>
  Claim C1. A call of \<open>add_event\<close> in which the calendar identifier, the title, the start
  or the end is empty fails with the assertion error of a local check, and the world is
  the one the call started in: no request has reached the service.
\<close>

theorem add_event_validates_before_any_call:
  assumes "calendar_id = [] \<or> summary = [] \<or> start_time = [] \<or> end_time = []"
  shows "\<exists>msg. add_event service calendar_id summary start_time end_time description location
                  verbosity w = (Inl (AssertionError msg), w)"
  using assms by (cases service) (auto simp: add_event_def)

text \<open>
  C1 at a call whose end is empty, on the scenario's service.
\<close>

theorem add_event_validates_before_any_call_witness:
  "(''primary'' = [] \<or> ''Meeting'' = [] \<or> ''2023-09-13T10:00:00'' = [] \<or> ([]::string) = [])
   \<and> (\<exists>msg. add_event (Some scenario_service) ''primary'' ''Meeting'' ''2023-09-13T10:00:00'' []
               [] [] True world0 = (Inl (AssertionError msg), world0))"
proof -
  have h: "''primary'' = [] \<or> ''Meeting'' = [] \<or> ''2023-09-13T10:00:00'' = [] \<or> ([]::string) = []"
    by simp
  show ?thesis
    using h add_event_validates_before_any_call [OF h, of "Some scenario_service" "[]" "[]" True world0]
    by simp
qed

text \<open>
  Claim C8. \<open>create_calendar\<close> with an empty title fails with the assertion error of a
  local check and the world is the one the call started in: no request has reached the
  service.
\<close>

theorem create_calendar_validates_before_any_call:
  "\<exists>msg. create_calendar service [] verbosity w = (Inl (AssertionError msg), w)"
  by (cases service) (simp_all add: create_calendar_def)

text \<open>
  C8 on the scenario's service.
\<close>

theorem create_calendar_validates_before_any_call_witness:
  "\<exists>msg. create_calendar (Some scenario_service) [] True world0 = (Inl (AssertionError msg), world0)"
  by (rule create_calendar_validates_before_any_call)

text \<open>
  Claim C10. Called with \<^verbatim>\<open>None\<close> for the session, each of \<open>fetch_events\<close>,
  \<open>add_event\<close> and \<open>create_calendar\<close> fails with the assertion error
  "Service must be initialized." and leaves the world as it was: no request is made.
\<close>

theorem none_session_asserts:
  "fetch_events fromisoformat None date verbosity w
     = (Inl (AssertionError ''Service must be initialized.''), w)
   \<and> add_event None calendar_id summary start_time end_time description location verbosity w
     = (Inl (AssertionError ''Service must be initialized.''), w)
   \<and> create_calendar None title verbosity w
     = (Inl (AssertionError ''Service must be initialized.''), w)"
  by (simp add: fetch_events_def add_event_def create_calendar_def)

text \<open>
  C10 at the example calls of the docstrings.
\<close>

theorem none_session_asserts_witness:
  "fetch_events date_fromisoformat None ''2023-09-13'' True world0
     = (Inl (AssertionError ''Service must be initialized.''), world0)
   \<and> add_event None ''primary'' ''Meeting'' ''2023-09-13T10:00:00'' ''2023-09-13T11:00:00'' [] [] True
        world0
     = (Inl (AssertionError ''Service must be initialized.''), world0)
   \<and> create_calendar None ''My New Calendar'' True world0
     = (Inl (AssertionError ''Service must be initialized.''), world0)"
  by (rule none_session_asserts)

section \<open>What add\_event returns\<close>

text \<open>
  Claim C2, as amended. A call of \<open>add_event\<close> with non-empty calendar identifier,
  title, start and end whose insertion the service accepts returns \<^verbatim>\<open>None\<close>. It has
  sent the one insertion request, with the body built from its arguments, and the link
  of the created event is printed when the verbosity flag is set; the reference the
  service assigned is not returned.
\<close>

theorem add_event_returns_none:
  assumes "calendar_id \<noteq> []" and "summary \<noteq> []" and "start_time \<noteq> []" and "end_time \<noteq> []"
    and "body = \<lparr>eb_summary = summary, eb_location = location, eb_description = description,
                  eb_start = \<lparr>ts_dateTime = start_time, ts_timeZone = ''Asia/Jerusalem''\<rparr>,
                  eb_end = \<lparr>ts_dateTime = end_time, ts_timeZone = ''Asia/Jerusalem''\<rparr>\<rparr>"
    and "events_insert svc calendar_id body = Inr created"
  shows "fst (add_event (Some svc) calendar_id summary start_time end_time description location
                verbosity w) = Inr None
       \<and> calls (snd (add_event (Some svc) calendar_id summary start_time end_time description
                       location verbosity w)) = calls w @ [Events_insert calendar_id body]
       \<and> stdout (snd (add_event (Some svc) calendar_id summary start_time end_time description
                        location verbosity w))
           = (if verbosity then stdout w @ [''Event created: '' @ str_opt (ev_htmlLink created)]
              else stdout w)"
  using assms by (simp add: add_event_def Let_def request_def print_def)

text \<open>
  The amended C2 at the example call of the docstring, verbose.
\<close>

theorem add_event_returns_none_witness:
  "fst (add_event (Some scenario_service) ''primary'' ''Meeting'' ''2023-09-13T10:00:00''
          ''2023-09-13T11:00:00'' [] [] True world0) = Inr None
   \<and> stdout (snd (add_event (Some scenario_service) ''primary'' ''Meeting'' ''2023-09-13T10:00:00''
          ''2023-09-13T11:00:00'' [] [] True world0))
       = [''Event created: https://calendar.example/event?eid=new'']"
proof -
  let ?body = "\<lparr>eb_summary = ''Meeting'', eb_location = [], eb_description = [],
                 eb_start = \<lparr>ts_dateTime = ''2023-09-13T10:00:00'', ts_timeZone = ''Asia/Jerusalem''\<rparr>,
                 eb_end = \<lparr>ts_dateTime = ''2023-09-13T11:00:00'', ts_timeZone = ''Asia/Jerusalem''\<rparr>\<rparr>"
  have ins: "events_insert scenario_service ''primary'' ?body = Inr (inserted_event ?body)"
    by (simp add: scenario_service_def)
  show ?thesis
    using add_event_returns_none [of "''primary''" "''Meeting''" "''2023-09-13T10:00:00''"
        "''2023-09-13T11:00:00''" ?body "[]" "[]" scenario_service "inserted_event ?body" True world0]
      ins
    by (simp add: world0_def inserted_event_def str_opt_def)
qed

text \<open>
  Claim C2 as stated fails: the scenario's service answers the insertion with an event
  that carries a link, and the call returns \<^verbatim>\<open>None\<close>, not that event.
\<close>

theorem add_event_does_not_return_reference:
  "events_insert scenario_service ''primary''
       \<lparr>eb_summary = ''Meeting'', eb_location = [], eb_description = [],
        eb_start = \<lparr>ts_dateTime = ''2023-09-13T10:00:00'', ts_timeZone = ''Asia/Jerusalem''\<rparr>,
        eb_end = \<lparr>ts_dateTime = ''2023-09-13T11:00:00'', ts_timeZone = ''Asia/Jerusalem''\<rparr>\<rparr>
     = Inr \<lparr>ev_summary = Some ''Meeting'',
            ev_start = Some \<lparr>et_dateTime = Some ''2023-09-13T10:00:00'', et_date = None\<rparr>,
            ev_end = Some \<lparr>et_dateTime = Some ''2023-09-13T11:00:00'', et_date = None\<rparr>,
            ev_htmlLink = Some ''https://calendar.example/event?eid=new''\<rparr>
   \<and> fst (add_event (Some scenario_service) ''primary'' ''Meeting'' ''2023-09-13T10:00:00''
            ''2023-09-13T11:00:00'' [] [] False world0)
     \<noteq> Inr (Some \<lparr>ev_summary = Some ''Meeting'',
            ev_start = Some \<lparr>et_dateTime = Some ''2023-09-13T10:00:00'', et_date = None\<rparr>,
            ev_end = Some \<lparr>et_dateTime = Some ''2023-09-13T11:00:00'', et_date = None\<rparr>,
            ev_htmlLink = Some ''https://calendar.example/event?eid=new''\<rparr>)
   \<and> fst (add_event (Some scenario_service) ''primary'' ''Meeting'' ''2023-09-13T10:00:00''
            ''2023-09-13T11:00:00'' [] [] False world0) = Inr None"
  by (simp add: add_event_def scenario_service_def inserted_event_def Let_def)

section \<open>A refresh that fails\<close>

text \<open>
  Claim C7, as amended. When the token file holds an expired credential with a refresh
  token and the refresh request fails, \<open>get_calendar_service\<close> ends with the exception
  of the refresh. The refresh request is the only step taken: the consent flow is not
  run, the token file is not written and no client is built.
\<close>

theorem refresh_failure_propagates:
  assumes "token_file w = Some content"
    and "from_authorized_user_file lib content = Inr c"
    and "cred_expired c"
    and "truthy (cred_refresh_token c)"
    and "refresh lib c = Inl e"
  shows "get_calendar_service lib verbosity w = (Inl e, auth_do Refresh_request w)"
  using assms by (simp add: get_calendar_service_def load_creds_def renew_and_store_def cred_valid_def renew_def
        Let_def)

text \<open>
  The amended C7 on the libraries whose refresh request fails.
\<close>

theorem refresh_failure_propagates_witness:
  "token_file stale_world = Some ''{old}''
   \<and> from_authorized_user_file offline_lib ''{old}'' = Inr expired_cred
   \<and> cred_expired expired_cred
   \<and> truthy (cred_refresh_token expired_cred)
   \<and> refresh offline_lib expired_cred = Inl (RefreshError ''transport failure'')
   \<and> get_calendar_service offline_lib True stale_world
       = (Inl (RefreshError ''transport failure''), auth_do Refresh_request stale_world)"
proof -
  have h1: "token_file stale_world = Some ''{old}''"
    by (simp add: stale_world_def world0_def)
  have h2: "from_authorized_user_file offline_lib ''{old}'' = Inr expired_cred"
    by (simp add: offline_lib_def)
  have h3: "cred_expired expired_cred"
    by (simp add: expired_cred_def)
  have h4: "truthy (cred_refresh_token expired_cred)"
    by (simp add: expired_cred_def truthy_def)
  have h5: "refresh offline_lib expired_cred = Inl (RefreshError ''transport failure'')"
    by (simp add: offline_lib_def)
  show ?thesis
    using h1 h2 h3 h4 h5 refresh_failure_propagates [OF h1 h2 h3 h4 h5, of True]
    by simp
qed

text \<open>
  Claim C7 as stated fails: on libraries whose consent flow would give a fresh credential,
  the run ends with the error of the refresh after the refresh request alone.
\<close>

theorem refresh_failure_no_fallback:
  "run_local_server offline_lib = Inr fresh_cred
   \<and> fst (get_calendar_service offline_lib False stale_world) = Inl (RefreshError ''transport failure'')
   \<and> auth_steps (snd (get_calendar_service offline_lib False stale_world)) = [Refresh_request]"
  by (simp add: get_calendar_service_def load_creds_def renew_and_store_def cred_valid_def renew_def
        Let_def
        offline_lib_def stale_world_def world0_def expired_cred_def truthy_def auth_do_def)

section \<open>The day of a date-only input\<close>










lemma scenario_day_window:
  "day_window date_fromisoformat ''2023-09-13''
     = Inr (''2023-09-13T00:00:00+02:00'', ''2023-09-13T23:59:59+02:00'')"
  by (simp add: day_window_def date_fromisoformat_def digit_val_def days_in_month_def
        localize_def directive_def zero_pad_def digit_char_def)

lemma scenario_run:
  "fst (fetch_events date_fromisoformat (Some scenario_service) ''2023-09-13'' False world0)
     = Inr [\<lparr>row_calendar_name = ''Work'', row_event_summary = ''Standup'',
             row_event_start = Some ''2023-09-13T09:00:00+02:00'',
             row_event_end = Some ''2023-09-13T10:00:00+02:00''\<rparr>]"
  by (simp add: fetch_events_def scenario_day_window scenario_service_def get_items_def Let_def
        event_data_def standup_def time_value_def)

section \<open>Rows, warning and requests of fetch\_events\<close>

text \<open>
  Claim C3. For a valid date, when the enumeration and every listing succeed and no
  calendar has an event in the window, \<open>fetch_events\<close> returns the empty frame, not an
  error, and has issued the warning "No events found for the specified date."
\<close>

theorem fetch_events_empty_day_warns:
  assumes "day_window fromisoformat date = Inr (time_min, time_max)"
    and "calendarList_list svc = Inr calendar_list"
    and "list_all (listable svc time_min time_max) (get_items calendar_list)"
    and "listed svc time_min time_max (get_items calendar_list) = []"
  shows "fst (fetch_events fromisoformat (Some svc) date verbosity w) = Inr []
       \<and> warnings (snd (fetch_events fromisoformat (Some svc) date verbosity w))
           = warnings w @ [''No events found for the specified date.'']"
proof -
  from fetch_events_total [OF assms(1-3), of verbosity w] obtain rows
    where rows: "fst (fetch_events fromisoformat (Some svc) date verbosity w) = Inr rows"
    by blast
  from fetch_events_Inr [OF rows assms(1,2)] assms(4) have "rows = []"
    by simp
  with rows fetch_events_warnings [OF rows] show ?thesis
    by simp
qed

text \<open>
  C3 on the service without events, for 13 September 2023.
\<close>

theorem fetch_events_empty_day_warns_witness:
  "day_window date_fromisoformat ''2023-09-13''
     = Inr (''2023-09-13T00:00:00+02:00'', ''2023-09-13T23:59:59+02:00'')
   \<and> list_all (listable quiet_service ''2023-09-13T00:00:00+02:00'' ''2023-09-13T23:59:59+02:00'')
        [\<lparr>cal_id = Some ''work'', cal_summary = Some ''Work''\<rparr>,
         \<lparr>cal_id = Some ''personal'', cal_summary = Some ''Personal''\<rparr>]
   \<and> listed quiet_service ''2023-09-13T00:00:00+02:00'' ''2023-09-13T23:59:59+02:00''
        [\<lparr>cal_id = Some ''work'', cal_summary = Some ''Work''\<rparr>,
         \<lparr>cal_id = Some ''personal'', cal_summary = Some ''Personal''\<rparr>] = []
   \<and> fst (fetch_events date_fromisoformat (Some quiet_service) ''2023-09-13'' True world0) = Inr []
   \<and> warnings (snd (fetch_events date_fromisoformat (Some quiet_service) ''2023-09-13'' True world0))
       = [''No events found for the specified date.'']"
proof -
  let ?cl = "\<lparr>items = Some [\<lparr>cal_id = Some ''work'', cal_summary = Some ''Work''\<rparr>,
                              \<lparr>cal_id = Some ''personal'', cal_summary = Some ''Personal''\<rparr>]\<rparr>"
  note h1 = scenario_day_window
  have h2: "calendarList_list quiet_service = Inr ?cl"
    by (simp add: quiet_service_def scenario_service_def)
  have h3: "list_all (listable quiet_service ''2023-09-13T00:00:00+02:00'' ''2023-09-13T23:59:59+02:00'')
              (get_items ?cl)"
    by (simp add: listable_def quiet_service_def get_items_def)
  have h4: "listed quiet_service ''2023-09-13T00:00:00+02:00'' ''2023-09-13T23:59:59+02:00''
              (get_items ?cl) = []"
    by (simp add: listed_def events_of_def quiet_service_def get_items_def)
  show ?thesis
    using h1 h3 h4 fetch_events_empty_day_warns [OF h1 h2 h3 h4, of True world0]
    by (simp add: get_items_def world0_def)
qed

text \<open>
  Claim C4, as amended. For a valid date, every row \<open>fetch_events\<close> returns carries the
  name of one of the enumerated calendars. Start and end of a row are the values the
  service gave for the event, and the program does not compare them: the rows have
  start \<open>\<le>\<close> end when every listed event has.
\<close>

theorem fetch_events_rows_of_enumerated_calendars:
  assumes "fst (fetch_events fromisoformat (Some svc) date verbosity w) = Inr rows"
    and "day_window fromisoformat date = Inr (time_min, time_max)"
    and "calendarList_list svc = Inr calendar_list"
  shows "(\<forall>r\<in>set rows. \<exists>c\<in>set (get_items calendar_list). cal_summary c = Some (row_calendar_name r))
       \<and> ((\<forall>ne\<in>set (listed svc time_min time_max (get_items calendar_list)).
               event_start_le_end (snd ne))
            \<longrightarrow> (\<forall>r\<in>set rows. row_start_le_end r))"
proof -
  let ?evs = "listed svc time_min time_max (get_items calendar_list)"
  have proj: "list_all2 is_projection ?evs rows"
    by (rule fetch_events_Inr [OF assms])
  have source: "\<exists>ne\<in>set ?evs. is_projection ne r" if "r \<in> set rows" for r
    using list_all2_right_member [OF proj that] .
  have names: "\<exists>c\<in>set (get_items calendar_list). cal_summary c = Some (row_calendar_name r)"
    if "r \<in> set rows" for r
  proof -
    from source [OF that] obtain ne where ne: "ne \<in> set ?evs" "is_projection ne r"
      by blast
    from listed_names [OF ne(1)] projection_keeps_name [OF ne(2)] show ?thesis
      by simp
  qed
  have order: "row_start_le_end r"
    if "\<forall>ne\<in>set ?evs. event_start_le_end (snd ne)" and "r \<in> set rows" for r
  proof -
    from source [OF that(2)] obtain ne where ne: "ne \<in> set ?evs" "is_projection ne r"
      by blast
    with that(1) have "event_start_le_end (snd ne)"
      by blast
    with ne(2) show ?thesis
      by (rule projection_keeps_order)
  qed
  from names order show ?thesis
    by blast
qed

text \<open>
  The amended C4 on the scenario of the specification.
\<close>

theorem fetch_events_rows_of_enumerated_calendars_witness:
  "event_start_le_end standup
   \<and> fst (fetch_events date_fromisoformat (Some scenario_service) ''2023-09-13'' False world0)
       = Inr [\<lparr>row_calendar_name = ''Work'', row_event_summary = ''Standup'',
               row_event_start = Some ''2023-09-13T09:00:00+02:00'',
               row_event_end = Some ''2023-09-13T10:00:00+02:00''\<rparr>]
   \<and> row_start_le_end \<lparr>row_calendar_name = ''Work'', row_event_summary = ''Standup'',
               row_event_start = Some ''2023-09-13T09:00:00+02:00'',
               row_event_end = Some ''2023-09-13T10:00:00+02:00''\<rparr>
   \<and> (\<exists>c. (c = \<lparr>cal_id = Some ''work'', cal_summary = Some ''Work''\<rparr>
             \<or> c = \<lparr>cal_id = Some ''personal'', cal_summary = Some ''Personal''\<rparr>)
          \<and> cal_summary c = Some ''Work'')"
proof -
  let ?cs = "[\<lparr>cal_id = Some ''work'', cal_summary = Some ''Work''\<rparr>,
              \<lparr>cal_id = Some ''personal'', cal_summary = Some ''Personal''\<rparr>]"
  have h2: "calendarList_list scenario_service = Inr \<lparr>items = Some ?cs\<rparr>"
    by (simp add: scenario_service_def)
  have l: "listed scenario_service ''2023-09-13T00:00:00+02:00'' ''2023-09-13T23:59:59+02:00''
             (get_items \<lparr>items = Some ?cs\<rparr>) = [(''Work'', standup)]"
    by (simp add: listed_def events_of_def scenario_service_def get_items_def)
  have h3: "event_start_le_end standup"
    by (simp add: standup_def event_start_le_end_def time_value_def)
  show ?thesis
    using h3 scenario_run
      fetch_events_rows_of_enumerated_calendars [OF scenario_run scenario_day_window h2]
    unfolding l by (auto simp: get_items_def)
qed

text \<open>
  Claim C4 as stated fails: when the service lists an event from 10:00 to 09:00, the row
  returned for it has its start after its end.
\<close>

theorem fetch_events_returns_backwards_row:
  "fst (fetch_events date_fromisoformat (Some backwards_service) ''2023-09-13'' False world0)
     = Inr [\<lparr>row_calendar_name = ''Work'', row_event_summary = ''Backwards'',
             row_event_start = Some ''2023-09-13T10:00:00+02:00'',
             row_event_end = Some ''2023-09-13T09:00:00+02:00''\<rparr>]
   \<and> \<not> row_start_le_end \<lparr>row_calendar_name = ''Work'', row_event_summary = ''Backwards'',
             row_event_start = Some ''2023-09-13T10:00:00+02:00'',
             row_event_end = Some ''2023-09-13T09:00:00+02:00''\<rparr>"
  by (simp add: fetch_events_def scenario_day_window backwards_service_def scenario_service_def
        get_items_def Let_def event_data_def backwards_def time_value_def row_start_le_end_def)

text \<open>
  Claim C5. For a valid date, when the enumeration and every listing succeed and every
  event has a start and an end object, \<open>fetch_events\<close> returns one row per listed event,
  in order: the row has the name of the event's calendar, as start and end the date-time
  value if present and else the whole-day date value, and as title the event's title, or
  "Unknown" when it has none.
\<close>

theorem fetch_events_projects_every_event:
  assumes "day_window fromisoformat date = Inr (time_min, time_max)"
    and "calendarList_list svc = Inr calendar_list"
    and "list_all (listable svc time_min time_max) (get_items calendar_list)"
  shows "\<exists>rows. fst (fetch_events fromisoformat (Some svc) date verbosity w) = Inr rows
           \<and> list_all2 is_projection (listed svc time_min time_max (get_items calendar_list)) rows"
proof -
  from fetch_events_total [OF assms, of verbosity w] obtain rows
    where rows: "fst (fetch_events fromisoformat (Some svc) date verbosity w) = Inr rows"
    by blast
  from rows fetch_events_Inr [OF rows assms(1,2)] show ?thesis
    by blast
qed

text \<open>
  C5 on a service with a titled event given by date-times and an untitled whole-day
  event.
\<close>

theorem fetch_events_projects_every_event_witness:
  "list_all (listable holiday_service ''2023-09-13T00:00:00+02:00'' ''2023-09-13T23:59:59+02:00'')
        [\<lparr>cal_id = Some ''work'', cal_summary = Some ''Work''\<rparr>,
         \<lparr>cal_id = Some ''personal'', cal_summary = Some ''Personal''\<rparr>]
   \<and> fst (fetch_events date_fromisoformat (Some holiday_service) ''2023-09-13'' True world0)
       = Inr [\<lparr>row_calendar_name = ''Work'', row_event_summary = ''Standup'',
               row_event_start = Some ''2023-09-13T09:00:00+02:00'',
               row_event_end = Some ''2023-09-13T10:00:00+02:00''\<rparr>,
              \<lparr>row_calendar_name = ''Personal'', row_event_summary = ''Unknown'',
               row_event_start = Some ''2023-09-13'',
               row_event_end = Some ''2023-09-14''\<rparr>]"
proof -
  let ?cs = "[\<lparr>cal_id = Some ''work'', cal_summary = Some ''Work''\<rparr>,
              \<lparr>cal_id = Some ''personal'', cal_summary = Some ''Personal''\<rparr>]"
  have h2: "calendarList_list holiday_service = Inr \<lparr>items = Some ?cs\<rparr>"
    by (simp add: holiday_service_def scenario_service_def)
  have h3: "list_all (listable holiday_service ''2023-09-13T00:00:00+02:00''
              ''2023-09-13T23:59:59+02:00'') (get_items \<lparr>items = Some ?cs\<rparr>)"
    by (simp add: listable_def holiday_service_def get_items_def timed_def standup_def holiday_def)
  have l: "listed holiday_service ''2023-09-13T00:00:00+02:00'' ''2023-09-13T23:59:59+02:00''
             (get_items \<lparr>items = Some ?cs\<rparr>) = [(''Work'', standup), (''Personal'', holiday)]"
    by (simp add: listed_def events_of_def holiday_service_def get_items_def)
  obtain rows where rows:
      "fst (fetch_events date_fromisoformat (Some holiday_service) ''2023-09-13'' True world0) = Inr rows"
    and proj: "list_all2 is_projection [(''Work'', standup), (''Personal'', holiday)] rows"
    using fetch_events_projects_every_event [OF scenario_day_window h2 h3, of True world0]
    unfolding l by blast
  from proj obtain r1 r2 where r: "rows = [r1, r2]"
    and p1: "is_projection (''Work'', standup) r1" and p2: "is_projection (''Personal'', holiday) r2"
    by (auto simp: list_all2_Cons1)
  from p1 have "r1 = \<lparr>row_calendar_name = ''Work'', row_event_summary = ''Standup'',
               row_event_start = Some ''2023-09-13T09:00:00+02:00'',
               row_event_end = Some ''2023-09-13T10:00:00+02:00''\<rparr>"
    by (cases r1) (simp add: is_projection_def standup_def)
  moreover from p2 have "r2 = \<lparr>row_calendar_name = ''Personal'', row_event_summary = ''Unknown'',
               row_event_start = Some ''2023-09-13'',
               row_event_end = Some ''2023-09-14''\<rparr>"
    by (cases r2) (simp add: is_projection_def holiday_def)
  ultimately show ?thesis
    using h3 rows r by (simp add: get_items_def)
qed



section \<open>The verbosity flag\<close>

lemma finish_verbosity: "fst (finish lib verbosity c w) = fst (finish lib verbosity' c w)"
  by (simp add: finish_def Let_def split: sum.splits)

lemma get_calendar_service_verbosity:
  "fst (get_calendar_service lib verbosity w) = fst (get_calendar_service lib verbosity' w)"
  unfolding get_calendar_service_def
  by (auto split: sum.splits option.splits prod.splits intro: finish_verbosity)

lemma fetch_events_verbosity:
  "fst (fetch_events fromisoformat service date verbosity w)
     = fst (fetch_events fromisoformat service date verbosity' w)"
proof (cases service)
  case None
  then show ?thesis by (simp add: fetch_events_def)
next
  case (Some svc)
  show ?thesis
  proof (cases "day_window fromisoformat date")
    case (Inl e)
    with Some show ?thesis by (simp add: fetch_events_def)
  next
    case (Inr window)
    obtain time_min time_max where window: "window = (time_min, time_max)"
      by (cases window)
    show ?thesis
    proof (cases "calendarList_list svc")
      case (Inl e)
      with Some Inr window show ?thesis by (simp add: fetch_events_def Let_def)
    next
      case cl: (Inr calendar_list)
      have result: "fst (fetch_events fromisoformat (Some svc) date v w)
          = fst (fetch_calendars svc time_min time_max v (get_items calendar_list) []
                   (request CalendarList_list
                      (if v then print (''Fetching events for '' @ date @ ''.'') w else w)))" for v
        unfolding fetch_events_unfold [OF Inr [unfolded window] cl]
        by (auto split: prod.splits sum.splits)
      show ?thesis
        unfolding Some result by (rule fetch_calendars_verbosity)
    qed
  qed
qed

lemma add_event_verbosity:
  "fst (add_event service calendar_id summary start_time end_time description location verbosity w)
     = fst (add_event service calendar_id summary start_time end_time description location
              verbosity' w)"
  by (simp add: add_event_def Let_def split: option.splits sum.splits)

text \<open>
  Claim C9, as amended. Two runs of \<open>get_calendar_service\<close>, \<open>fetch_events\<close> or
  \<open>add_event\<close> on the same inputs and service that differ only in the verbosity flag end
  the same way: the same value returned or the same exception. So do two runs of
  \<open>create_calendar\<close> when the created calendar the service answers with carries its
  summary and its identifier, which the verbose run reads to print them; and whenever
  both runs of \<open>create_calendar\<close> return, they return the same value.
\<close>

theorem verbosity_keeps_outcome:
  "fst (get_calendar_service lib verbosity w) = fst (get_calendar_service lib verbosity' w)
   \<and> fst (fetch_events fromisoformat service date verbosity w)
       = fst (fetch_events fromisoformat service date verbosity' w)
   \<and> fst (add_event service calendar_id summary start_time end_time description location
            verbosity w)
       = fst (add_event service calendar_id summary start_time end_time description location
                verbosity' w)
   \<and> ((\<forall>svc created. service = Some svc
          \<longrightarrow> calendars_insert svc \<lparr>cb_summary = title, cb_timeZone = ''Asia/Jerusalem''\<rparr> = Inr created
          \<longrightarrow> cal_summary created \<noteq> None \<and> cal_id created \<noteq> None)
       \<longrightarrow> fst (create_calendar service title verbosity w)
            = fst (create_calendar service title verbosity' w))
   \<and> (\<forall>a b. fst (create_calendar service title verbosity w) = Inr a
          \<longrightarrow> fst (create_calendar service title verbosity' w) = Inr b \<longrightarrow> a = b)"
proof (intro conjI allI impI)
  show "fst (get_calendar_service lib verbosity w) = fst (get_calendar_service lib verbosity' w)"
    by (rule get_calendar_service_verbosity)
  show "fst (fetch_events fromisoformat service date verbosity w)
          = fst (fetch_events fromisoformat service date verbosity' w)"
    by (rule fetch_events_verbosity)
  show "fst (add_event service calendar_id summary start_time end_time description location
               verbosity w)
          = fst (add_event service calendar_id summary start_time end_time description location
                   verbosity' w)"
    by (rule add_event_verbosity)
  show "fst (create_calendar service title verbosity w) = fst (create_calendar service title verbosity' w)"
    if "\<forall>svc created. service = Some svc
          \<longrightarrow> calendars_insert svc \<lparr>cb_summary = title, cb_timeZone = ''Asia/Jerusalem''\<rparr> = Inr created
          \<longrightarrow> cal_summary created \<noteq> None \<and> cal_id created \<noteq> None"
    using that by (auto simp: create_calendar_def Let_def split: option.splits sum.splits)
  show "a = b"
    if "fst (create_calendar service title verbosity w) = Inr a"
      and "fst (create_calendar service title verbosity' w) = Inr b" for a b
    using that by (auto simp: create_calendar_def Let_def split: option.splits sum.splits if_splits)
qed

text \<open>
  The amended C9 on the scenario's service.
\<close>

theorem verbosity_keeps_outcome_witness:
  "calendars_insert scenario_service
       \<lparr>cb_summary = ''My New Calendar'', cb_timeZone = ''Asia/Jerusalem''\<rparr>
     = Inr \<lparr>cal_id = Some ''c_new@group.calendar.example'', cal_summary = Some ''My New Calendar''\<rparr>
   \<and> fst (create_calendar (Some scenario_service) ''My New Calendar'' True world0) = Inr None
   \<and> fst (create_calendar (Some scenario_service) ''My New Calendar'' False world0) = Inr None
   \<and> fst (fetch_events date_fromisoformat (Some scenario_service) ''2023-09-13'' True world0)
       = Inr [\<lparr>row_calendar_name = ''Work'', row_event_summary = ''Standup'',
               row_event_start = Some ''2023-09-13T09:00:00+02:00'',
               row_event_end = Some ''2023-09-13T10:00:00+02:00''\<rparr>]"
proof -
  have ins: "calendars_insert scenario_service
       \<lparr>cb_summary = ''My New Calendar'', cb_timeZone = ''Asia/Jerusalem''\<rparr>
     = Inr \<lparr>cal_id = Some ''c_new@group.calendar.example'', cal_summary = Some ''My New Calendar''\<rparr>"
    by (simp add: scenario_service_def)
  then have h: "\<forall>svc created. Some scenario_service = Some svc
      \<longrightarrow> calendars_insert svc \<lparr>cb_summary = ''My New Calendar'', cb_timeZone = ''Asia/Jerusalem''\<rparr>
            = Inr created
      \<longrightarrow> cal_summary created \<noteq> None \<and> cal_id created \<noteq> None"
    by auto
  have quiet: "fst (create_calendar (Some scenario_service) ''My New Calendar'' False world0) = Inr None"
    by (simp add: create_calendar_def ins Let_def)
  from h quiet ins scenario_run
    verbosity_keeps_outcome [of online_lib True world0 False date_fromisoformat "Some scenario_service"
      "''2023-09-13''" "''primary''" "''Meeting''" "''2023-09-13T10:00:00''" "''2023-09-13T11:00:00''"
      "[]" "[]" "''My New Calendar''"]
  show ?thesis
    by simp
qed

text \<open>
  Claim C9 as stated fails: when the answer to the insertion has no identifier, the quiet
  run of \<open>create_calendar\<close> returns \<^verbatim>\<open>None\<close> and the verbose run raises
  \<open>KeyError\<close>.
\<close>

theorem verbose_create_calendar_raises:
  "calendars_insert terse_service \<lparr>cb_summary = ''My New Calendar'', cb_timeZone = ''Asia/Jerusalem''\<rparr>
     = Inr \<lparr>cal_id = None, cal_summary = Some ''My New Calendar''\<rparr>
   \<and> fst (create_calendar (Some terse_service) ''My New Calendar'' False world0) = Inr None
   \<and> fst (create_calendar (Some terse_service) ''My New Calendar'' True world0) = Inl (KeyError ''id'')"
  by (simp add: create_calendar_def terse_service_def scenario_service_def Let_def)

end
